theory Spec2Isabelle
  imports Main
begin

section \<open>Exceptions as values\<close>

text \<open>
  Every exception the modelled Python can raise is a value. \<open>IllegalMoveError\<close> is the
  repository's own exception class and carries its message; the others are Python's and
  numpy's built-in exceptions.
\<close>

datatype error =
    IllegalMoveError string
  | IndexError
  | TypeError
  | ValueError
  | KeyError
  | AttributeError
  | OverflowError

definition ebind :: "error + 'a \<Rightarrow> ('a \<Rightarrow> error + 'b) \<Rightarrow> error + 'b" where
  "ebind m f = (case m of Inl e \<Rightarrow> Inl e | Inr x \<Rightarrow> f x)"

fun emap :: "('a \<Rightarrow> error + 'b) \<Rightarrow> 'a list \<Rightarrow> error + 'b list" where
  "emap f [] = Inr []"
| "emap f (x # xs) = ebind (f x) (\<lambda>y. ebind (emap f xs) (\<lambda>ys. Inr (y # ys)))"

definition is_illegal_move :: "error + 'a \<Rightarrow> bool" where
  "is_illegal_move r = (case r of Inl (IllegalMoveError m) \<Rightarrow> True | _ \<Rightarrow> False)"

section \<open>The board: an 8 by 8 numpy array of int8\<close>

text \<open>
  \<open>game.py\<close> keeps the board in a numpy array of shape (8, 8); row 0 is rank 1 and
  column 0 is file a. The model is a list of eight rows of eight integers. A square is a
  pair of Python integers, as the type annotation \<open>Tuple[int, int]\<close> of every method says.
\<close>

type_synonym board = "int list list"
type_synonym square = "int \<times> int"

text \<open>
  \<open>board[i, :] = row\<close> for a constant row index \<open>i\<close> from -8 to 7; a negative index
  counts from the end. A scalar on the right is broadcast over the row.
\<close>

definition setrow :: "board \<Rightarrow> int \<Rightarrow> int list \<Rightarrow> board" where
  "setrow b i row = b[nat (if i < 0 then i + 8 else i) := row]"

definition zeros :: board where
  "zeros = replicate 8 (replicate 8 0)"

definition new_board :: board where
  "new_board =
     (let board0 = zeros;
          board1 = setrow board0 1 (replicate 8 1);
          board2 = setrow board1 (- 2) (replicate 8 (- 1));
          board3 = setrow board2 0 [4, 2, 3, 5, 6, 3, 2, 4]
      in setrow board3 (- 1) (map uminus (board3 ! 0)))"

text \<open>
  \<open>self._board[s]\<close> with \<open>s\<close> a pair of integers: numpy accepts an index from -8 to 7 on
  each axis, a negative one counting from the end, and raises IndexError for any other.
\<close>

definition norm_index :: "int \<Rightarrow> error + nat" where
  "norm_index i =
     (if - 8 \<le> i \<and> i < 8 then Inr (nat (if i < 0 then i + 8 else i)) else Inl IndexError)"

definition getitem :: "board \<Rightarrow> square \<Rightarrow> error + int" where
  "getitem b s =
     ebind (norm_index (fst s)) (\<lambda>r. ebind (norm_index (snd s)) (\<lambda>c. Inr (b ! r ! c)))"

text \<open>
  A slice \<open>slice(start, stop, step)\<close> applied to an axis of length 8: a zero step raises
  ValueError; otherwise start and stop are adjusted as CPython does (a negative bound
  counts from the end, then both are clamped), and the indices are
  \<open>start, start + step, ...\<close> up to but excluding \<open>stop\<close>.
\<close>

definition adjust_bound :: "int \<Rightarrow> int \<Rightarrow> int" where
  "adjust_bound step x =
     (if x < 0 then (if x + 8 < 0 then (if step < 0 then - 1 else 0) else x + 8)
      else if 8 \<le> x then (if step < 0 then 7 else 8)
      else x)"

definition slice_indices :: "int \<times> int \<times> int \<Rightarrow> error + nat list" where
  "slice_indices sl =
     (case sl of (start, stop, step) \<Rightarrow>
        if step = 0 then Inl ValueError
        else
          let a = adjust_bound step start;
              b = adjust_bound step stop;
              n = (if step < 0 then (if b < a then (a - b - 1) div (- step) + 1 else 0)
                   else (if a < b then (b - a - 1) div step + 1 else 0))
          in Inr (map (\<lambda>k. nat (a + int k * step)) [0..<nat n]))"

definition getslice :: "board \<Rightarrow> int \<times> int \<times> int \<Rightarrow> int \<times> int \<times> int \<Rightarrow> error + int list list" where
  "getslice b sl0 sl1 =
     ebind (slice_indices sl0) (\<lambda>rs.
     ebind (slice_indices sl1) (\<lambda>cs.
       Inr (map (\<lambda>r. map (\<lambda>c. b ! r ! c) cs) rs)))"

text \<open>\<open>numpy.diagonal\<close> of a two-dimensional array: the entries \<open>[k, k]\<close>.\<close>

definition diagonal :: "int list list \<Rightarrow> int list" where
  "diagonal m =
     map (\<lambda>k. m ! k ! k) [0..<min (length m) (case m of [] \<Rightarrow> 0 | r # _ \<Rightarrow> length r)]"

text \<open>
  \<open>numpy.nonzero(line)[0]\<close>: for a one-dimensional \<open>line\<close> the indices of its non-zero
  entries; for a two-dimensional one the row index of every non-zero entry, in row-major
  order.
\<close>

definition nonzero_1d :: "int list \<Rightarrow> nat list" where
  "nonzero_1d xs = filter (\<lambda>k. xs ! k \<noteq> 0) [0..<length xs]"

definition nonzero_2d_rows :: "int list list \<Rightarrow> nat list" where
  "nonzero_2d_rows m =
     concat (map (\<lambda>i. map (\<lambda>x. i) (filter (\<lambda>x. x \<noteq> 0) (m ! i))) [0..<length m])"

definition component :: "square \<Rightarrow> nat \<Rightarrow> int" where
  "component v i = (if i = 0 then fst v else snd v)"

definition nearest_piece_in_direction :: "board \<Rightarrow> square \<Rightarrow> square \<Rightarrow> error + int" where
  "nearest_piece_in_direction b s d =
     (let orthogonal = (fst d = 0 \<or> snd d = 0);
          to_edge = (\<lambda>i. if component d i = 1 then 7 - component s i else component s i);
          d_edge = (if orthogonal then to_edge (1 - (if fst d = 0 then 0 else 1))
                    else min (to_edge 0) (to_edge 1));
          slicing = (\<lambda>i. (component s i + component d i,
                           component s i + component d i + component d i * d_edge,
                           component d i))
      in ebind (getslice b (slicing 0) (slicing 1)) (\<lambda>sub_board.
           let neighbors_idx = (if orthogonal then nonzero_2d_rows sub_board
                                else nonzero_1d (diagonal sub_board))
           in case neighbors_idx of
                [] \<Rightarrow> Inr 0
              | k # _ \<Rightarrow>
                  (let nearest_dist = int k + 1
                   in getitem b (fst s + fst d * nearest_dist, snd s + snd d * nearest_dist))))"

section \<open>The game state\<close>

text \<open>
  The attributes \<open>__init__\<close> sets. \<open>_can_castle\<close> is a 3 by 2 array whose row 0 is unused.
\<close>

record chess_game =
  board :: board
  turn :: int
  can_castle :: "int list list"
  enpassant :: int
  fifty_move_draw_count :: int
  game_over :: bool
  score :: int

definition init_game :: chess_game where
  "init_game =
     \<lparr> board = new_board, turn = 1, can_castle = [[0, 0], [1, 1], [1, 1]], enpassant = - 1,
       fifty_move_draw_count = 0, game_over = False, score = 0 \<rparr>"

definition COLORS :: "int \<Rightarrow> string option" where
  "COLORS k = (if k = - 1 then Some ''black'' else if k = 1 then Some ''white'' else None)"

definition square_is_empty :: "chess_game \<Rightarrow> square \<Rightarrow> error + bool" where
  "square_is_empty g s = ebind (getitem (board g) s) (\<lambda>p. Inr (p = 0))"

definition square_belongs_to_current_player :: "chess_game \<Rightarrow> square \<Rightarrow> error + bool" where
  "square_belongs_to_current_player g s = ebind (getitem (board g) s) (\<lambda>p. Inr (turn g = sgn p))"

text \<open>
  \<open>squares_are_inside_board\<close> has two paths. Given a pair of integers it first calls
  \<open>np.ndarray([s])\<close>: the constructor \<open>numpy.ndarray\<close> reads its first argument as a shape,
  a sequence of integers, and \<open>[s]\<close> is a list holding a tuple, so numpy raises TypeError
  before any comparison is made. Given an array of squares (the knight offsets) it
  compares each coordinate with 8 and -1.
\<close>

definition squares_are_inside_board_tuple :: "square \<Rightarrow> error + bool list" where
  "squares_are_inside_board_tuple s = Inl TypeError"

definition squares_are_inside_board :: "square list \<Rightarrow> bool list" where
  "squares_are_inside_board ss =
     map (\<lambda>s. (fst s < 8 \<and> fst s > - 1) \<and> (snd s < 8 \<and> snd s > - 1)) ss"

definition knight_moves :: "square list" where
  "knight_moves = [(2, 1), (2, - 1), (1, 2), (1, - 2), (- 1, 2), (- 1, - 2), (- 2, 1), (- 2, - 1)]"

definition square_is_attacked_by_knight :: "chess_game \<Rightarrow> square \<Rightarrow> error + bool" where
  "square_is_attacked_by_knight g s =
     (let knight_pos = map (\<lambda>m. (fst s + fst m, snd s + snd m)) knight_moves;
          inboard_pos_mask = squares_are_inside_board knight_pos;
          inboard_knight_pos = map fst (filter snd (zip knight_pos inboard_pos_mask))
      in ebind (emap (getitem (board g)) inboard_knight_pos) (\<lambda>ps.
           Inr (- turn g * 2 \<in> set ps)))"

text \<open>
  \<open>np.argwhere(self._board == p)\<close>: the squares holding \<open>p\<close>, in row-major order.
  \<open>np.abs(king_pos - s).max()\<close>: the largest coordinate distance from \<open>s\<close> to any of them;
  \<open>max\<close> of an empty array raises ValueError.
\<close>

definition argwhere :: "board \<Rightarrow> int \<Rightarrow> square list" where
  "argwhere b p =
     concat (map (\<lambda>r. map (\<lambda>c. (int r, int c)) (filter (\<lambda>c. b ! r ! c = p) [0..<8])) [0..<8])"

definition abs_dist_max :: "square list \<Rightarrow> square \<Rightarrow> error + int" where
  "abs_dist_max king_pos s =
     (case concat (map (\<lambda>k. [\<bar>fst k - fst s\<bar>, \<bar>snd k - snd s\<bar>]) king_pos) of
        [] \<Rightarrow> Inl ValueError
      | x # xs \<Rightarrow> Inr (fold max xs x))"

definition king_is_adjacent :: "chess_game \<Rightarrow> int \<Rightarrow> square \<Rightarrow> error + bool" where
  "king_is_adjacent g king s =
     ebind (abs_dist_max (argwhere (board g) king) s) (\<lambda>m. Inr (m = 1))"

definition square_is_attacked_orthogonal :: "chess_game \<Rightarrow> square \<Rightarrow> error + bool" where
  "square_is_attacked_orthogonal g s =
     ebind (emap (nearest_piece_in_direction (board g) s) [(1, 0), (- 1, 0), (0, 1), (0, - 1)])
       (\<lambda>ortho_neighbors.
          let ortho_attacking_pieces = map (\<lambda>p. - turn g * p) [4, 5, 6]
          in if \<exists>p \<in> set (take 2 ortho_attacking_pieces). p \<in> set ortho_neighbors then Inr True
             else if ortho_attacking_pieces ! 2 \<in> set ortho_neighbors then
               ebind (king_is_adjacent g (ortho_attacking_pieces ! 2) s) (\<lambda>adjacent.
                 if adjacent then Inr True else Inr False)
             else Inr False)"

text \<open>
  In \<open>square_is_attacked_diagonal\<close> the last \<open>if\<close>, the test for an opposing pawn among the
  two neighbours towards the opponent's side, has no statement in its body: three blank
  lines follow it, and then \<open>return False\<close> at the indentation of the \<open>if\<close> itself. Python
  does not compile an \<open>if\<close> without a body, so as it stands the module cannot be imported;
  the model reads the file as its author left it, with the branch for the pawn still
  empty: the test is made, and whatever it finds the function returns False.
\<close>

definition square_is_attacked_diagonal :: "chess_game \<Rightarrow> square \<Rightarrow> error + bool" where
  "square_is_attacked_diagonal g s =
     ebind (emap (nearest_piece_in_direction (board g) s) [(turn g, 1), (turn g, - 1)])
       (\<lambda>diag_neighbors_towards_opponent_side.
     ebind (emap (nearest_piece_in_direction (board g) s) [(- turn g, 1), (- turn g, - 1)])
       (\<lambda>diag_neighbors_towards_self_side.
          let diag_neighbors = diag_neighbors_towards_self_side @ diag_neighbors_towards_opponent_side;
              diag_attacking_pieces = map (\<lambda>p. - turn g * p) [3, 5, 6, 1]
          in if \<exists>p \<in> set (take 2 diag_attacking_pieces). p \<in> set diag_neighbors then Inr True
             else
               ebind (if diag_attacking_pieces ! 2 \<in> set diag_neighbors
                      then king_is_adjacent g (diag_attacking_pieces ! 2) s else Inr False)
                 (\<lambda>adjacent.
                    if adjacent then Inr True
                    else if diag_attacking_pieces ! 3 \<in> set diag_neighbors_towards_opponent_side
                    then Inr False
                    else Inr False)))"

text \<open>\<open>a or b or c\<close>: the later operands are evaluated only when the earlier ones are false.\<close>

definition square_is_attacked_by_opponent :: "chess_game \<Rightarrow> square \<Rightarrow> error + bool" where
  "square_is_attacked_by_opponent g s =
     ebind (square_is_attacked_by_knight g s) (\<lambda>by_knight.
       if by_knight then Inr True
       else ebind (square_is_attacked_orthogonal g s) (\<lambda>orthogonal.
         if orthogonal then Inr True else square_is_attacked_diagonal g s))"

text \<open>
  The body of \<open>move_breaks_absolute_pin\<close> is \<open>pass\<close>: it returns \<open>None\<close>, which the caller's
  \<open>if\<close> reads as false.
\<close>

definition move_breaks_absolute_pin :: "chess_game \<Rightarrow> square \<Rightarrow> square \<Rightarrow> bool" where
  "move_breaks_absolute_pin g s0 s1 = False"

definition move_results_in_own_check :: "chess_game \<Rightarrow> square \<Rightarrow> square \<Rightarrow> error + bool" where
  "move_results_in_own_check g s0 s1 =
     ebind (getitem (board g) s0) (\<lambda>p.
       if \<bar>p\<bar> = 6 then square_is_attacked_by_opponent g s1
       else Inr (move_breaks_absolute_pin g s0 s1))"

definition raise_for_illegal_move :: "chess_game \<Rightarrow> square \<Rightarrow> square \<Rightarrow> error + unit" where
  "raise_for_illegal_move g s0 s1 =
     ebind (square_is_empty g s0) (\<lambda>empty.
       if empty then Inl (IllegalMoveError ''Start-square is empty.'')
       else ebind (square_belongs_to_current_player g s0) (\<lambda>own0.
         if \<not> own0 then
           (case COLORS (turn g) of
              None \<Rightarrow> Inl KeyError
            | Some color \<Rightarrow> Inl (IllegalMoveError (''It is '' @ color @ [CHR 0x27] @ ''s turn.'')))
         else ebind (square_belongs_to_current_player g s1) (\<lambda>own1.
           if own1 then Inl (IllegalMoveError ''End-square occupied by current player's piece.'')
           else ebind (squares_are_inside_board_tuple s0) (\<lambda>inside0.
             if \<not> list_all id inside0 then Inl (IllegalMoveError ''Start-square is out of board.'')
             else ebind (squares_are_inside_board_tuple s1) (\<lambda>inside1.
               if \<not> list_all id inside1 then Inl (IllegalMoveError ''End-square is out of board.'')
               else ebind (move_results_in_own_check g s0 s1) (\<lambda>check.
                 if check
                 then Inl (IllegalMoveError ''Move results in current player being checked.'')
                 else Inr ()))))))"

text \<open>
  \<open>move\<close> calls \<open>self._update_game_state\<close>, a method the class does not define. The model
  takes it as a parameter: a function from the state and the two squares to an outcome and
  the state it leaves. \<open>update_game_state_missing\<close> is what the class as written does:
  the attribute lookup raises AttributeError and nothing is changed.
\<close>

type_synonym updater = "chess_game \<Rightarrow> square \<Rightarrow> square \<Rightarrow> (error + unit) \<times> chess_game"

definition update_game_state_missing :: updater where
  "update_game_state_missing g s0 s1 = (Inl AttributeError, g)"

definition move :: "updater \<Rightarrow> chess_game \<Rightarrow> square \<Rightarrow> square \<Rightarrow> (error + int option) \<times> chess_game" where
  "move update_game_state g s0 s1 =
     (if game_over g then (Inr (Some (score g)), g)
      else case raise_for_illegal_move g s0 s1 of
             Inl e \<Rightarrow> (Inl e, g)
           | Inr u \<Rightarrow>
               (case update_game_state g s0 s1 of
                  (Inl e, g') \<Rightarrow> (Inl e, g')
                | (Inr u', g') \<Rightarrow>
                    (if game_over g' then (Inr (Some (score g')), g') else (Inr None, g'))))"

section \<open>BoardState and its starting position\<close>

text \<open>
  \<open>board_representation.py\<close>: the named tuple \<open>BoardState\<close>. \<open>castling_rights\<close> is a
  dictionary from player to a dictionary from wing to a boolean; its four entries are the
  four fields of \<open>castling\<close>.
\<close>

record castling =
  white_queenside :: bool
  white_kingside :: bool
  black_queenside :: bool
  black_kingside :: bool

record BoardState =
  bs_board :: board
  castling_rights :: castling
  player :: int
  enpassant_file :: int
  fifty_move_count :: int
  ply_count :: int
  is_checkmate :: "bool option"
  is_draw :: "bool option"

text \<open>
  \<open>board[(1, -2), :] = [[1], [-1]]\<close> assigns to rows 1 and -2 at once, each value broadcast
  over its row.
\<close>

definition create_new_game :: BoardState where
  "create_new_game =
     (let board0 = zeros;
          board1 = setrow (setrow board0 1 (replicate 8 1)) (- 2) (replicate 8 (- 1));
          board2 = setrow board1 0 [4, 2, 3, 5, 6, 3, 2, 4];
          board3 = setrow board2 (- 1) (map uminus (board2 ! 0))
      in \<lparr> bs_board = board3,
           castling_rights = \<lparr> white_queenside = True, white_kingside = True,
                               black_queenside = True, black_kingside = True \<rparr>,
           player = 1, enpassant_file = - 1, fifty_move_count = 0, ply_count = 0,
           is_checkmate = None, is_draw = None \<rparr>)"

section \<open>Parsing a FEN record\<close>











text \<open>
  The modules \<open>consts\<close> and \<open>notations.mappings\<close>, from which \<open>fen.py\<close> imports \<open>WHITE\<close>,
  \<open>BLACK\<close>, \<open>KINGSIDE\<close>, \<open>QUEENSIDE\<close>, \<open>PIECE_LETTERS\<close> and \<open>FILES\<close>, are not among the
  sources. The two wings only serve as keys of the castling dictionary and are the fields
  of \<open>castling\<close>; the other four are modelled below.
\<close>











section \<open>Positions used in the examples\<close>

text \<open>White to move in each; only the board differs from the starting state.\<close>

definition pinned_knight_game :: chess_game where
  \<comment> \<open>white king e1, white knight d2, black bishop a5 pinning the knight, black king e8\<close>
  "pinned_knight_game = init_game \<lparr> board :=
     [[0, 0, 0, 0, 6, 0, 0, 0],
      [0, 0, 0, 2, 0, 0, 0, 0],
      [0, 0, 0, 0, 0, 0, 0, 0],
      [0, 0, 0, 0, 0, 0, 0, 0],
      [- 3, 0, 0, 0, 0, 0, 0, 0],
      [0, 0, 0, 0, 0, 0, 0, 0],
      [0, 0, 0, 0, 0, 0, 0, 0],
      [0, 0, 0, 0, - 6, 0, 0, 0]] \<rparr>"

definition king_retreat_game :: chess_game where
  \<comment> \<open>white king e2, black rook e8 giving check along the e-file, black king a8\<close>
  "king_retreat_game = init_game \<lparr> board :=
     [[0, 0, 0, 0, 0, 0, 0, 0],
      [0, 0, 0, 0, 6, 0, 0, 0],
      [0, 0, 0, 0, 0, 0, 0, 0],
      [0, 0, 0, 0, 0, 0, 0, 0],
      [0, 0, 0, 0, 0, 0, 0, 0],
      [0, 0, 0, 0, 0, 0, 0, 0],
      [0, 0, 0, 0, 0, 0, 0, 0],
      [- 6, 0, 0, 0, - 4, 0, 0, 0]] \<rparr>"

definition pawn_attack_game :: chess_game where
  \<comment> \<open>white king d3, black pawn e5 (it attacks d4 and f4), black king h8\<close>
  "pawn_attack_game = init_game \<lparr> board :=
     [[0, 0, 0, 0, 0, 0, 0, 0],
      [0, 0, 0, 0, 0, 0, 0, 0],
      [0, 0, 0, 6, 0, 0, 0, 0],
      [0, 0, 0, 0, 0, 0, 0, 0],
      [0, 0, 0, 0, - 1, 0, 0, 0],
      [0, 0, 0, 0, 0, 0, 0, 0],
      [0, 0, 0, 0, 0, 0, 0, 0],
      [0, 0, 0, 0, 0, 0, 0, - 6]] \<rparr>"

definition bishop_attack_game :: chess_game where
  \<comment> \<open>white king e4, black bishop a1 (it attacks d4 along the long diagonal), black king h8\<close>
  "bishop_attack_game = init_game \<lparr> board :=
     [[- 3, 0, 0, 0, 0, 0, 0, 0],
      [0, 0, 0, 0, 0, 0, 0, 0],
      [0, 0, 0, 0, 0, 0, 0, 0],
      [0, 0, 0, 0, 6, 0, 0, 0],
      [0, 0, 0, 0, 0, 0, 0, 0],
      [0, 0, 0, 0, 0, 0, 0, 0],
      [0, 0, 0, 0, 0, 0, 0, 0],
      [0, 0, 0, 0, 0, 0, 0, - 6]] \<rparr>"

definition finished_game :: chess_game where
  "finished_game = init_game \<lparr> game_over := True, score := - 1 \<rparr>"

section \<open>What a FEN record must look like to be accepted\<close>








section \<open>Facts about the error monad and the starting board\<close>

lemma ebind_simps:
  "ebind (Inl e) f = Inl e" "ebind (Inr x) f = f x"
  by (simp_all add: ebind_def)






lemma new_board_rows:
  "new_board =
     [[4, 2, 3, 5, 6, 3, 2, 4],
      [1, 1, 1, 1, 1, 1, 1, 1],
      [0, 0, 0, 0, 0, 0, 0, 0],
      [0, 0, 0, 0, 0, 0, 0, 0],
      [0, 0, 0, 0, 0, 0, 0, 0],
      [0, 0, 0, 0, 0, 0, 0, 0],
      [- 1, - 1, - 1, - 1, - 1, - 1, - 1, - 1],
      [- 4, - 2, - 3, - 5, - 6, - 3, - 2, - 4]]"
  by (simp add: new_board_def zeros_def setrow_def Let_def numeral_eq_Suc)





section \<open>General facts about the scan and the legality check\<close>

text \<open>
  Every orthogonal direction makes \<open>nearest_piece_in_direction\<close> raise ValueError, on every
  board and from every square: the slice for the axis whose direction component is 0 has
  step 0.
\<close>

lemma orthogonal_ray_raises_ValueError:
  assumes "fst d = 0 \<or> snd d = 0"
  shows "nearest_piece_in_direction b s d = Inl ValueError"
  using assms
  by (auto simp: nearest_piece_in_direction_def getslice_def slice_indices_def component_def
      Let_def ebind_def split: sum.splits)

text \<open>A move of a piece other than a king is never found to result in own check.\<close>

lemma other_pieces_never_result_in_own_check:
  assumes "getitem (board g) s0 = Inr p" and "\<bar>p\<bar> \<noteq> 6"
  shows "move_results_in_own_check g s0 s1 = Inr False"
  using assms by (simp add: move_results_in_own_check_def move_breaks_absolute_pin_def ebind_simps)

text \<open>
  Called with two pairs of integers, the legality check never returns: a move that passes
  the three occupancy tests raises TypeError in the bounds test.
\<close>

lemma legality_check_always_raises:
  "\<exists>e. raise_for_illegal_move g s0 s1 = Inl e"
  by (auto simp: raise_for_illegal_move_def squares_are_inside_board_tuple_def ebind_def
      split: sum.splits option.splits)

section \<open>The starting position\<close>

text \<open>
  C10. The two constructors of the starting position agree: the board of
  \<open>ChessGame.new_board()\<close> is, square for square, the board of
  \<open>BoardState.create_new_game()\<close>: the back rank 4, 2, 3, 5, 6, 3, 2, 4 on row 0 and its
  negation on row 7, pawns on rows 1 and 6, and every other square 0.
\<close>

theorem new_board_is_create_new_game_board:
  "new_board = bs_board create_new_game
   \<and> bs_board create_new_game =
       [[4, 2, 3, 5, 6, 3, 2, 4],
        [1, 1, 1, 1, 1, 1, 1, 1],
        [0, 0, 0, 0, 0, 0, 0, 0],
        [0, 0, 0, 0, 0, 0, 0, 0],
        [0, 0, 0, 0, 0, 0, 0, 0],
        [0, 0, 0, 0, 0, 0, 0, 0],
        [- 1, - 1, - 1, - 1, - 1, - 1, - 1, - 1],
        [- 4, - 2, - 3, - 5, - 6, - 3, - 2, - 4]]"
  by (simp add: create_new_game_def new_board_def zeros_def setrow_def Let_def numeral_eq_Suc)

section \<open>The legality check in the starting position\<close>




section \<open>Pins, king moves and the attack detector at concrete positions\<close>

text \<open>
  C2, evaluated at a failing input. White king e1, white knight d2, black bishop a5: the
  knight is pinned on the diagonal a5 to e1. The knight move d2 to f3 leaves the diagonal;
  \<open>move_results_in_own_check\<close> answers false for it, and the legality check does not
  reject it as an illegal move.
\<close>

theorem pinned_knight_may_leave_the_pin_ray:
  "move_results_in_own_check pinned_knight_game (1, 3) (2, 5) = Inr False
   \<and> \<not> is_illegal_move (raise_for_illegal_move pinned_knight_game (1, 3) (2, 5))"
  by (simp add: move_results_in_own_check_def move_breaks_absolute_pin_def
      raise_for_illegal_move_def square_is_empty_def square_belongs_to_current_player_def
      pinned_knight_game_def init_game_def getitem_def norm_index_def ebind_simps
      squares_are_inside_board_tuple_def is_illegal_move_def)

text \<open>
  C3, evaluated at a failing input. White king e2, black rook e8. The king steps back to
  e1, a square the rook attacks once the king stands there. \<open>move_results_in_own_check\<close>
  does not answer true: the knight test finds nothing, and the orthogonal scan that follows
  raises ValueError, because the slice it builds for the axis it does not move along has
  step 0. The legality check does not reject the move as an illegal move either.
\<close>

theorem king_retreat_along_check_line_is_not_rejected:
  "move_results_in_own_check king_retreat_game (1, 4) (0, 4) = Inl ValueError
   \<and> \<not> is_illegal_move (raise_for_illegal_move king_retreat_game (1, 4) (0, 4))"
  by code_simp

text \<open>
  C4, evaluated at failing inputs. On the starting board, from c3 towards the lower left
  the nearest piece is the white pawn on b2, and \<open>nearest_piece_in_direction\<close> returns 0:
  the slice that runs down to index 0 has stop -1, which numpy reads as index 7, so the
  slice is empty. From c3 upwards the function raises ValueError (slice step 0).
\<close>

theorem nearest_piece_misses_the_pawn_on_b2:
  "nearest_piece_in_direction new_board (2, 2) (- 1, - 1) = Inr 0
   \<and> getitem new_board (1, 1) = Inr 1
   \<and> nearest_piece_in_direction new_board (2, 2) (1, 0) = Inl ValueError"
  by code_simp

text \<open>
  C6, evaluated at failing inputs. With white to move, the black pawn on e5 attacks d4, and
  the black bishop on a1 attacks d4 along the long diagonal; \<open>square_is_attacked_diagonal\<close>
  answers false for d4 in both positions. In the first the pawn is found, and the \<open>if\<close>
  that finds it has no body; in the second the bishop is not found, since the ray towards
  the lower left is an empty slice.
\<close>

theorem pawn_and_bishop_attacks_are_not_detected:
  "square_is_attacked_diagonal pawn_attack_game (3, 3) = Inr False
   \<and> nearest_piece_in_direction (board pawn_attack_game) (3, 3) (1, 1) = Inr (- 1)
   \<and> square_is_attacked_diagonal bishop_attack_game (3, 3) = Inr False"
  by code_simp

section \<open>The method move\<close>

text \<open>
  C5, evaluated at a failing input. In the starting position, \<open>move\<close> with the origin
  (8, 0), a row index out of range, raises IndexError: the first test of the legality
  check indexes the board with the origin before any bounds test is reached.
\<close>

theorem move_out_of_range_raises_IndexError:
  "move update_game_state init_game (8, 0) (0, 0) = (Inl IndexError, init_game)"
  by (simp add: move_def raise_for_illegal_move_def square_is_empty_def init_game_def
      getitem_def norm_index_def ebind_simps)

text \<open>
  C7. For every state in which the game is not over, every pair of squares and every
  implementation of the state update: when the legality check raises, \<open>move\<close> raises the
  same exception and leaves the whole state (board, turn, castling rights, en-passant
  file, fifty-move counter, game-over flag and score) as it was.
\<close>

theorem rejected_move_leaves_state_unchanged:
  assumes "\<not> game_over g" and "raise_for_illegal_move g s0 s1 = Inl e"
  shows "move update_game_state g s0 s1 = (Inl e, g)"
  using assms by (simp add: move_def)

text \<open>Witness for C7: the move from the empty square d4 in the starting position.\<close>

theorem rejected_move_leaves_state_unchanged_witness:
  "\<not> game_over init_game
   \<and> raise_for_illegal_move init_game (3, 3) (4, 3) = Inl (IllegalMoveError ''Start-square is empty.'')
   \<and> move update_game_state_missing init_game (3, 3) (4, 3)
       = (Inl (IllegalMoveError ''Start-square is empty.''), init_game)"
proof -
  have h1: "\<not> game_over init_game"
    by (simp add: init_game_def)
  have h2: "raise_for_illegal_move init_game (3, 3) (4, 3)
              = Inl (IllegalMoveError ''Start-square is empty.'')"
    by (simp add: raise_for_illegal_move_def square_is_empty_def init_game_def getitem_def
        norm_index_def ebind_simps new_board_rows)
  show ?thesis
    using h1 h2 rejected_move_leaves_state_unchanged [OF h1 h2, of update_game_state_missing]
    by simp
qed

text \<open>
  C8. For every state in which the game is over, every pair of squares and every
  implementation of the state update, \<open>move\<close> returns the stored score, raises nothing and
  leaves the state as it was; the squares are not looked at, so the legality check is not
  run.
\<close>

theorem move_after_game_over_returns_score:
  assumes "game_over g"
  shows "move update_game_state g s0 s1 = (Inr (Some (score g)), g)"
  using assms by (simp add: move_def)

text \<open>
  Witness for C8: a finished game with score -1 and squares far outside the board, on
  which the legality check itself would raise IndexError.
\<close>

theorem move_after_game_over_returns_score_witness:
  "game_over finished_game
   \<and> raise_for_illegal_move finished_game (99, 99) (- 99, 0) = Inl IndexError
   \<and> move update_game_state_missing finished_game (99, 99) (- 99, 0)
       = (Inr (Some (- 1)), finished_game)"
proof -
  have h: "game_over finished_game"
    by (simp add: finished_game_def)
  have r: "raise_for_illegal_move finished_game (99, 99) (- 99, 0) = Inl IndexError"
    by (simp add: raise_for_illegal_move_def square_is_empty_def getitem_def norm_index_def
        ebind_simps)
  show ?thesis
    using h r move_after_game_over_returns_score [OF h, of update_game_state_missing "(99, 99)" "(- 99, 0)"]
    by (simp add: finished_game_def)
qed

section \<open>Validation of FEN records\<close>
























end
